theory Spec2Isabelle
  imports Main
begin

section \<open>The weather service of \<^verbatim>\<open>main.go\<close>\<close>

text \<open>
  The program is one HTTP handler (\<^verbatim>\<open>weatherHandler\<close>), a resolver
  (\<^verbatim>\<open>getForecast\<close>) that chains two upstream requests, and a temperature
  classifier (\<^verbatim>\<open>classify\<close>). Go strings are byte strings and are modelled by
  \<^typ>\<open>string\<close>; Go's \<^verbatim>\<open>int\<close> is modelled by \<^typ>\<open>int\<close>, since the
  program only compares temperatures and never computes with them.
\<close>

subsection \<open>The classifier\<close>

text \<open>
  \<^verbatim>\<open>
  func classify(temp int) string {
      switch {
      case temp >= 80: return "hot"
      case temp <= 50: return "cold"
      default:         return "moderate"
      }
  }
  \<close>
\<close>

definition classify :: "int \<Rightarrow> string" where
  "classify temp =
     (if temp \<ge> 80 then ''hot''
      else if temp \<le> 50 then ''cold''
      else ''moderate'')"

subsection \<open>Coordinates and their text form\<close>

text \<open>
  A coordinate is a Go \<^verbatim>\<open>float64\<close>. The program never computes with it: it
  obtains it from \<^verbatim>\<open>strconv.ParseFloat\<close> and prints it with the verb
  \<^verbatim>\<open>%.4f\<close>. A value is a NaN, an infinity with its sign, or a finite number
  \<open>Finite neg m e\<close>, which stands for the number \<open>m * 2 ^ e\<close>, negated when
  \<open>neg\<close> holds.
\<close>

datatype float64 = Finite bool nat int | Inf bool | NaN

definition digit :: "nat \<Rightarrow> char" where
  "digit n = ''0123456789'' ! (n mod 10)"

fun digits :: "nat \<Rightarrow> string" where
  "digits n = (if n < 10 then [digit n] else digits (n div 10) @ [digit n])"

declare digits.simps [simp del]

text \<open>The quotient \<open>a / d\<close> rounded to the nearest natural number, a tie going to the even one.\<close>

definition round_half_even :: "nat \<Rightarrow> nat \<Rightarrow> nat" where
  "round_half_even a d =
     (let q = a div d; r = a mod d
      in if 2 * r > d \<or> (2 * r = d \<and> odd q) then q + 1 else q)"

text \<open>
  \<^verbatim>\<open>fmt.Sprintf("%.4f", x)\<close>: the exact value of a finite \<open>x\<close> rounded to four
  decimals (ties to even), with a minus sign when the sign bit is set; the three
  non-finite values print as words.
\<close>

fun fmt_4f :: "float64 \<Rightarrow> string" where
  "fmt_4f NaN = ''NaN''"
| "fmt_4f (Inf neg) = (if neg then ''-Inf'' else ''+Inf'')"
| "fmt_4f (Finite neg m e) =
     (let n = (if e \<ge> 0 then m * 2 ^ nat e * 10000
               else round_half_even (m * 10000) (2 ^ nat (- e)))
      in (if neg then ''-'' else []) @ digits (n div 10000) @ ''.''
         @ [digit (n div 1000), digit (n div 100), digit (n div 10), digit n])"

subsection \<open>Data of the upstream exchange\<close>

text \<open>
  The structs of the program. The nested \<^verbatim>\<open>Properties\<close> struct of the two
  upstream documents is flattened into its only field; the fields of a period carry the
  names of their JSON tags, the fields of the result their Go names.
\<close>

record PointsResponse =
  Properties_Forecast :: string

record Period =
  name :: string
  startTime :: string
  temperature :: int
  temperatureUnit :: string
  shortForecast :: string
  isDaytime :: bool

record ForecastResponse =
  Properties_Periods :: "Period list"

record WeatherResult =
  Forecast :: string
  Temperature :: int
  Classification :: string

text \<open>An outbound request and the part of an upstream response the program looks at.\<close>

record request =
  Method :: string
  URL :: string
  Header :: "(string \<times> string) list"

record response =
  StatusCode :: int
  Body :: string
  Body_failed :: bool

text \<open>
  Errors that the library calls of the resolver return: \<^verbatim>\<open>http.Client.Do\<close> fails
  with a \<^verbatim>\<open>url.Error\<close>; \<^verbatim>\<open>json.Unmarshal\<close> fails with a
  \<^verbatim>\<open>SyntaxError\<close> when the text is not valid JSON and with an
  \<^verbatim>\<open>UnmarshalTypeError\<close> when the text is valid JSON but one of its values does
  not fit the Go type it is decoded into.
\<close>

datatype error = url_Error string | SyntaxError | UnmarshalTypeError

datatype panic = NilPointerDereference | IndexOutOfRange

datatype 'a outcome = Panic panic | Return 'a

subsection \<open>The environment\<close>

text \<open>
  What the standard library and the outside world answer is a parameter of the model:
  \<^item> \<open>ParseFloat s\<close> is \<^verbatim>\<open>strconv.ParseFloat(s, 64)\<close>, \<open>None\<close> when it returns an error;
  \<^item> \<open>url_ok u\<close> tells whether \<^verbatim>\<open>http.NewRequest("GET", u, nil)\<close> builds a request
    (it fails when \<open>u\<close> does not parse as a URL);
  \<^item> \<open>Do sent r\<close> is the answer of \<^verbatim>\<open>http.DefaultClient.Do(r)\<close> after the requests
    \<open>sent\<close> have been issued;
  \<^item> \<open>Unmarshal_points\<close> and \<open>Unmarshal_forecast\<close> are \<^verbatim>\<open>json.Unmarshal\<close> into a
    fresh \<^verbatim>\<open>PointsResponse\<close> and a fresh \<^verbatim>\<open>ForecastResponse\<close>;
  \<^item> \<open>Now\<close> is \<^verbatim>\<open>time.Now().Format("2006-01-02")\<close>.
\<close>

record env =
  ParseFloat :: "string \<Rightarrow> float64 option"
  url_ok :: "string \<Rightarrow> bool"
  Do :: "request list \<Rightarrow> request \<Rightarrow> error + response"
  Unmarshal_points :: "string \<Rightarrow> error + PointsResponse"
  Unmarshal_forecast :: "string \<Rightarrow> error + ForecastResponse"
  Now :: string

definition NewRequest :: "env \<Rightarrow> string \<Rightarrow> string \<Rightarrow> request option" where
  "NewRequest env m u =
     (if url_ok env u then Some \<lparr>Method = m, URL = u, Header = []\<rparr> else None)"

definition Header_Set :: "string \<Rightarrow> string \<Rightarrow> request \<Rightarrow> request" where
  "Header_Set k v r = r\<lparr>Header := (k, v) # filter (\<lambda>kv. fst kv \<noteq> k) (Header r)\<rparr>"

definition Header_Get :: "request \<Rightarrow> string \<Rightarrow> string" where
  "Header_Get r k = (case map_of (Header r) k of None \<Rightarrow> [] | Some v \<Rightarrow> v)"

text \<open>\<^verbatim>\<open>body, _ := ioutil.ReadAll(resp.Body)\<close>: the bytes read, and whether reading failed.\<close>

definition ReadAll :: "response \<Rightarrow> string \<times> bool" where
  "ReadAll resp = (Body resp, Body_failed resp)"

subsection \<open>The resolver\<close>

text \<open>
  The loop of step 3:
  \<^verbatim>\<open>
  for _, p := range fr.Properties.Periods {
      if p.IsDaytime && len(p.StartTime) >= 10 && p.StartTime[:10] == today {
          return p.ShortForecast, p.Temperature, classify(p.Temperature), nil
      }
  }
  \<close>
  \<open>None\<close> means that the loop ended without returning.
\<close>

fun range_periods :: "string \<Rightarrow> Period list \<Rightarrow> Period option" where
  "range_periods today [] = None"
| "range_periods today (p # ps) =
     (if isDaytime p \<and> length (startTime p) \<ge> 10 \<and> take 10 (startTime p) = today
      then Some p
      else range_periods today ps)"

text \<open>
  \<open>getForecast\<close> returns what the Go function returns (its four results, the error
  being \<open>None\<close> for \<^verbatim>\<open>nil\<close>) or panics, together with the requests it handed to
  \<^verbatim>\<open>Do\<close>, in order. The two errors the source drops are written out: a request
  that \<^verbatim>\<open>NewRequest\<close> could not build is \<^verbatim>\<open>nil\<close>, and setting its header
  panics; an empty period slice makes \<^verbatim>\<open>Periods[0]\<close> panic.
\<close>

definition getForecast ::
  "env \<Rightarrow> float64 \<Rightarrow> float64 \<Rightarrow> (string \<times> int \<times> string \<times> error option) outcome \<times> request list"
where
  "getForecast env lat lon =
     (let pointsURL = ''https://api.weather.gov/points/'' @ fmt_4f lat @ '','' @ fmt_4f lon in
      (case NewRequest env ''GET'' pointsURL of
         None \<Rightarrow> (Panic NilPointerDereference, [])
       | Some req \<Rightarrow>
        (let pointsReq = Header_Set ''User-Agent'' ''weather-service-example'' req in
         (case Do env [] pointsReq of
            Inl err \<Rightarrow> (Return ([], 0, [], Some err), [pointsReq])
          | Inr resp \<Rightarrow>
           (let body = fst (ReadAll resp) in
            (case Unmarshal_points env body of
               Inl err \<Rightarrow> (Return ([], 0, [], Some err), [pointsReq])
             | Inr pr \<Rightarrow>
              (let forecastURL = Properties_Forecast pr in
               (case NewRequest env ''GET'' forecastURL of
                  None \<Rightarrow> (Panic NilPointerDereference, [pointsReq])
                | Some req2 \<Rightarrow>
                 (let foreReq = Header_Set ''User-Agent'' ''weather-service-example'' req2 in
                  (case Do env [pointsReq] foreReq of
                     Inl err \<Rightarrow> (Return ([], 0, [], Some err), [pointsReq, foreReq])
                   | Inr resp2 \<Rightarrow>
                    (let body2 = fst (ReadAll resp2) in
                     (case Unmarshal_forecast env body2 of
                        Inl err \<Rightarrow> (Return ([], 0, [], Some err), [pointsReq, foreReq])
                      | Inr fr \<Rightarrow>
                       (let today = Now env in
                        (case range_periods today (Properties_Periods fr) of
                           Some p \<Rightarrow>
                             (Return (shortForecast p, temperature p,
                                      classify (temperature p), None),
                              [pointsReq, foreReq])
                         | None \<Rightarrow>
                            (case Properties_Periods fr of
                               [] \<Rightarrow> (Panic IndexOutOfRange, [pointsReq, foreReq])
                             | p # _ \<Rightarrow>
                               (Return (shortForecast p, temperature p,
                                        classify (temperature p), None),
                                [pointsReq, foreReq]))))))))))))))))"

subsection \<open>The endpoint\<close>

text \<open>
  The inbound request is its parsed query, a \<^verbatim>\<open>url.Values\<close>: every key has a
  list of values, empty when the key is absent, and \<^verbatim>\<open>Get\<close> answers the first
  value or the empty string.
\<close>

type_synonym Values = "string \<Rightarrow> string list"

definition Get :: "Values \<Rightarrow> string \<Rightarrow> string" where
  "Get v key = (case v key of [] \<Rightarrow> [] | x # _ \<Rightarrow> x)"

text \<open>
  What the handler writes: the status, the content type and the body. A body is the
  plain text that \<^verbatim>\<open>http.Error\<close> writes, byte for byte, or the JSON document
  that the encoder writes; the encoder prints a struct as an object with one member per
  field, named by the field's tag, in the order of declaration.
\<close>

datatype json = JString string | JNumber int | JObject "(string \<times> json) list"

datatype body = Text string | Json json

record reply =
  Status :: nat
  ContentType :: string
  Content :: body

definition StatusBadRequest :: nat where
  "StatusBadRequest = 400"

definition StatusInternalServerError :: nat where
  "StatusInternalServerError = 500"

definition StatusOK :: nat where
  "StatusOK = 200"

text \<open>
  \<^verbatim>\<open>http.Error(w, msg, code)\<close> sets the content type, writes the status and prints
  the message with \<^verbatim>\<open>fmt.Fprintln\<close>: the body is the message followed by a
  newline.
\<close>

definition Fprintln :: "string \<Rightarrow> string" where
  "Fprintln msg = msg @ [CHR 0x0A]"

definition http_Error :: "string \<Rightarrow> nat \<Rightarrow> reply" where
  "http_Error msg code =
     \<lparr>Status = code, ContentType = ''text/plain; charset=utf-8'',
      Content = Text (Fprintln msg)\<rparr>"

definition Encode :: "WeatherResult \<Rightarrow> json" where
  "Encode r =
     JObject [(''forecast'', JString (Forecast r)),
              (''temperature'', JNumber (Temperature r)),
              (''classification'', JString (Classification r))]"

text \<open>
  The handler answers with a reply or panics; beside it stand its two effects, the
  requests sent upstream and the lines given to \<^verbatim>\<open>log.Println\<close>.
\<close>

record effects =
  sent :: "request list"
  logged :: "(string \<times> error) list"

definition weatherHandler :: "env \<Rightarrow> Values \<Rightarrow> reply outcome \<times> effects" where
  "weatherHandler env query =
     (let latStr = Get query ''lat''; lonStr = Get query ''lon'' in
      if latStr = [] \<or> lonStr = [] then
        (Return (http_Error ''Missing lat or lon parameter'' StatusBadRequest),
         \<lparr>sent = [], logged = []\<rparr>)
      else
        (case ParseFloat env latStr of
           None \<Rightarrow>
             (Return (http_Error ''Invalid latitude'' StatusBadRequest),
              \<lparr>sent = [], logged = []\<rparr>)
         | Some lat \<Rightarrow>
           (case ParseFloat env lonStr of
              None \<Rightarrow>
                (Return (http_Error ''Invalid longitude'' StatusBadRequest),
                 \<lparr>sent = [], logged = []\<rparr>)
            | Some lon \<Rightarrow>
              (case getForecast env lat lon of
                 (Panic p, out) \<Rightarrow> (Panic p, \<lparr>sent = out, logged = []\<rparr>)
               | (Return (forecast, temp, classification, Some err), out) \<Rightarrow>
                   (Return (http_Error ''Failed to fetch forecast'' StatusInternalServerError),
                    \<lparr>sent = out, logged = [(''Error fetching forecast:'', err)]\<rparr>)
               | (Return (forecast, temp, classification, None), out) \<Rightarrow>
                   (Return \<lparr>Status = StatusOK, ContentType = ''application/json'',
                            Content = Json (Encode \<lparr>Forecast = forecast, Temperature = temp,
                                                   Classification = classification\<rparr>)\<rparr>,
                    \<lparr>sent = out, logged = []\<rparr>)))))"

subsection \<open>Notions used to state the properties\<close>

text \<open>The two requests the resolver is meant to issue.\<close>

definition points_request :: "float64 \<Rightarrow> float64 \<Rightarrow> request" where
  "points_request lat lon =
     \<lparr>Method = ''GET'',
      URL = ''https://api.weather.gov/points/'' @ fmt_4f lat @ '','' @ fmt_4f lon,
      Header = [(''User-Agent'', ''weather-service-example'')]\<rparr>"

definition forecast_request :: "string \<Rightarrow> request" where
  "forecast_request u =
     \<lparr>Method = ''GET'', URL = u, Header = [(''User-Agent'', ''weather-service-example'')]\<rparr>"

text \<open>
  The query carries both parameters and both parse: \<open>lat\<close> and \<open>lon\<close> are the
  coordinates the handler passes to the resolver.
\<close>

definition valid_query :: "env \<Rightarrow> Values \<Rightarrow> float64 \<Rightarrow> float64 \<Rightarrow> bool" where
  "valid_query env query lat lon =
     (Get query ''lat'' \<noteq> [] \<and> Get query ''lon'' \<noteq> []
      \<and> ParseFloat env (Get query ''lat'') = Some lat
      \<and> ParseFloat env (Get query ''lon'') = Some lon)"

text \<open>
  Both upstream exchanges go through for the coordinates \<open>lat\<close>, \<open>lon\<close> and the
  forecast document decodes to the period sequence \<open>ps\<close>: both requests can be built,
  both calls answer, both bodies decode.
\<close>

definition upstream_answers :: "env \<Rightarrow> float64 \<Rightarrow> float64 \<Rightarrow> Period list \<Rightarrow> bool" where
  "upstream_answers env lat lon ps =
     (url_ok env (URL (points_request lat lon)) \<and>
      (case Do env [] (points_request lat lon) of
         Inl _ \<Rightarrow> False
       | Inr r1 \<Rightarrow>
         (case Unmarshal_points env (Body r1) of
            Inl _ \<Rightarrow> False
          | Inr pr \<Rightarrow>
            url_ok env (Properties_Forecast pr) \<and>
            (case Do env [points_request lat lon] (forecast_request (Properties_Forecast pr)) of
               Inl _ \<Rightarrow> False
             | Inr r2 \<Rightarrow>
               (case Unmarshal_forecast env (Body r2) of
                  Inl _ \<Rightarrow> False
                | Inr fr \<Rightarrow> Properties_Periods fr = ps)))))"

text \<open>
  The selection policy in the words of the specification: the first period, in
  sequence order, that is a daytime period and whose start time begins with the date
  \<open>d\<close>; the first period of the sequence when there is none.
\<close>

definition daytime_on :: "string \<Rightarrow> Period \<Rightarrow> bool" where
  "daytime_on d p = (isDaytime p \<and> take 10 (startTime p) = d)"

definition selected_period :: "string \<Rightarrow> Period list \<Rightarrow> Period" where
  "selected_period d ps = (case find (daytime_on d) ps of Some p \<Rightarrow> p | None \<Rightarrow> hd ps)"

text \<open>The successful reply that carries the data of the period \<open>p\<close>.\<close>

definition reply_for :: "Period \<Rightarrow> reply" where
  "reply_for p =
     \<lparr>Status = 200, ContentType = ''application/json'',
      Content = Json (JObject [(''forecast'', JString (shortForecast p)),
                              (''temperature'', JNumber (temperature p)),
                              (''classification'', JString (classify (temperature p)))])\<rparr>"

text \<open>
  A coordinate text with exactly four decimals: an optional minus sign, at least one
  digit, a point and four digits.
\<close>

definition is_digit :: "char \<Rightarrow> bool" where
  "is_digit c = (c \<in> set ''0123456789'')"

definition four_decimals :: "string \<Rightarrow> bool" where
  "four_decimals s =
     (let u = (if take 1 s = ''-'' then drop 1 s else s); k = length u - 5
      in 6 \<le> length u \<and> list_all is_digit (take k u) \<and> u ! k = CHR ''.''
         \<and> list_all is_digit (drop (Suc k) u))"

text \<open>
  A points URL whose two coordinates have four decimals: after the fixed prefix come
  the text up to the first comma and the text behind that comma.
\<close>

definition points_prefix :: string where
  "points_prefix = ''https://api.weather.gov/points/''"

definition url_coordinates :: "string \<Rightarrow> string \<times> string" where
  "url_coordinates u =
     (let rest = drop (length points_prefix) u
      in (takeWhile (\<lambda>c. c \<noteq> CHR '','') rest, drop 1 (dropWhile (\<lambda>c. c \<noteq> CHR '','') rest)))"

definition four_decimal_url :: "string \<Rightarrow> bool" where
  "four_decimal_url u =
     (take (length points_prefix) u = points_prefix
      \<and> four_decimals (fst (url_coordinates u)) \<and> four_decimals (snd (url_coordinates u)))"

fun is_finite :: "float64 \<Rightarrow> bool" where
  "is_finite (Finite neg m e) = True"
| "is_finite (Inf neg) = False"
| "is_finite NaN = False"

text \<open>
  The error, if there is one, with which a call of the client or of the decoder ends
  the exchange with the upstream.
\<close>

definition exchange_failure :: "env \<Rightarrow> float64 \<Rightarrow> float64 \<Rightarrow> error option" where
  "exchange_failure env lat lon =
     (if \<not> url_ok env (URL (points_request lat lon)) then None
      else
        (case Do env [] (points_request lat lon) of
           Inl e \<Rightarrow> Some e
         | Inr r1 \<Rightarrow>
           (case Unmarshal_points env (Body r1) of
              Inl e \<Rightarrow> Some e
            | Inr pr \<Rightarrow>
              if \<not> url_ok env (Properties_Forecast pr) then None
              else
                (case Do env [points_request lat lon] (forecast_request (Properties_Forecast pr)) of
                   Inl e \<Rightarrow> Some e
                 | Inr r2 \<Rightarrow>
                   (case Unmarshal_forecast env (Body r2) of
                      Inl e \<Rightarrow> Some e
                    | Inr fr \<Rightarrow> None)))))"

text \<open>
  The failures that the specification names: a request that fails at the transport
  level, and a body that is not valid JSON.
\<close>

fun transport_or_syntax :: "error option \<Rightarrow> bool" where
  "transport_or_syntax (Some (url_Error m)) = True"
| "transport_or_syntax (Some SyntaxError) = True"
| "transport_or_syntax (Some UnmarshalTypeError) = False"
| "transport_or_syntax None = False"

fun returns_error :: "(string \<times> int \<times> string \<times> error option) outcome \<Rightarrow> bool" where
  "returns_error (Return (f, t, c, Some e)) = True"
| "returns_error (Return (f, t, c, None)) = False"
| "returns_error (Panic p) = False"

text \<open>
  The same environment, except that the responses of the upstream carry other status
  codes and other outcomes of reading the body.
\<close>

definition with_status ::
  "(request list \<Rightarrow> request \<Rightarrow> int) \<Rightarrow> (request list \<Rightarrow> request \<Rightarrow> bool) \<Rightarrow> env \<Rightarrow> env"
where
  "with_status code failed env =
     env\<lparr>Do := (\<lambda>sent r.
                  case Do env sent r of
                    Inl e \<Rightarrow> Inl e
                  | Inr resp \<Rightarrow> Inr (resp\<lparr>StatusCode := code sent r, Body_failed := failed sent r\<rparr>))\<rparr>"

subsection \<open>Concrete scenarios\<close>

text \<open>
  A stubbed environment, for running the model on concrete requests. It is described by
  three tables: the pages of the upstream (a URL that is not listed refuses the
  connection) and what the two decoders make of a body (a body that is not listed is
  not valid JSON). It parses three coordinate texts, \<open>38.5\<close>, \<open>-77.25\<close> and
  \<open>NaN\<close>, and no other; its date is 4 July 2024.
\<close>

definition stub ::
  "(string \<times> string) list \<Rightarrow> (string \<times> (error + PointsResponse)) list
     \<Rightarrow> (string \<times> (error + ForecastResponse)) list \<Rightarrow> env"
where
  "stub pages points_docs forecast_docs =
     \<lparr>ParseFloat =
        map_of [(''38.5'', Finite False 77 (- 1)), (''-77.25'', Finite True 309 (- 2)),
                (''NaN'', NaN)],
      url_ok = (\<lambda>u. True),
      Do = (\<lambda>sent r.
              case map_of pages (URL r) of
                None \<Rightarrow> Inl (url_Error ''connection refused'')
              | Some b \<Rightarrow> Inr \<lparr>StatusCode = 200, Body = b, Body_failed = False\<rparr>),
      Unmarshal_points =
        (\<lambda>b. case map_of points_docs b of None \<Rightarrow> Inl SyntaxError | Some d \<Rightarrow> d),
      Unmarshal_forecast =
        (\<lambda>b. case map_of forecast_docs b of None \<Rightarrow> Inl SyntaxError | Some d \<Rightarrow> d),
      Now = ''2024-07-04''\<rparr>"

definition lat0 :: float64 where
  "lat0 = Finite False 77 (- 1)"

definition lon0 :: float64 where
  "lon0 = Finite True 309 (- 2)"

definition points_url0 :: string where
  "points_url0 = ''https://api.weather.gov/points/38.5000,-77.2500''"

definition grid_url :: string where
  "grid_url = ''https://api.weather.gov/gridpoints/LWX/97,71/forecast''"

definition points_doc :: string where
  \<open>points_doc =
     ''{"properties":{"forecast":"https://api.weather.gov/gridpoints/LWX/97,71/forecast"}}''\<close>

definition query_of :: "string list \<Rightarrow> string list \<Rightarrow> Values" where
  "query_of lats lons = (\<lambda>k. if k = ''lat'' then lats else if k = ''lon'' then lons else [])"

text \<open>The request \<^verbatim>\<open>GET /weather?lat=38.5&lon=-77.25\<close>.\<close>

definition query0 :: Values where
  "query0 = query_of [''38.5''] [''-77.25'']"

text \<open>
  A forecast whose first period is of today but at night, whose second is the daytime
  period of today and whose third is a daytime period of tomorrow.
\<close>

definition periods_today :: "Period list" where
  "periods_today =
     [\<lparr>name = ''Overnight'', startTime = ''2024-07-04T00:00:00-04:00'', temperature = 61,
       temperatureUnit = ''F'', shortForecast = ''Clear'', isDaytime = False\<rparr>,
      \<lparr>name = ''Independence Day'', startTime = ''2024-07-04T06:00:00-04:00'',
       temperature = 85, temperatureUnit = ''F'', shortForecast = ''Sunny'',
       isDaytime = True\<rparr>,
      \<lparr>name = ''Friday'', startTime = ''2024-07-05T06:00:00-04:00'', temperature = 70,
       temperatureUnit = ''F'', shortForecast = ''Showers'', isDaytime = True\<rparr>]"

definition doc_today :: string where
  \<open>doc_today =
     ''{"properties":{"periods":['' @
     ''{"name":"Overnight","startTime":"2024-07-04T00:00:00-04:00","temperature":61,'' @
     ''"temperatureUnit":"F","shortForecast":"Clear","isDaytime":false},'' @
     ''{"name":"Independence Day","startTime":"2024-07-04T06:00:00-04:00","temperature":85,'' @
     ''"temperatureUnit":"F","shortForecast":"Sunny","isDaytime":true},'' @
     ''{"name":"Friday","startTime":"2024-07-05T06:00:00-04:00","temperature":70,'' @
     ''"temperatureUnit":"F","shortForecast":"Showers","isDaytime":true}]}}''\<close>

definition env_today :: env where
  "env_today =
     stub [(points_url0, points_doc), (grid_url, doc_today)]
       [(points_doc, Inr \<lparr>Properties_Forecast = grid_url\<rparr>)]
       [(doc_today, Inr \<lparr>Properties_Periods = periods_today\<rparr>)]"

text \<open>A forecast with night periods of later days only.\<close>

definition periods_later :: "Period list" where
  "periods_later =
     [\<lparr>name = ''Friday Night'', startTime = ''2024-07-05T18:00:00-04:00'', temperature = 45,
       temperatureUnit = ''F'', shortForecast = ''Mostly Clear'', isDaytime = False\<rparr>,
      \<lparr>name = ''Saturday Night'', startTime = ''2024-07-06T18:00:00-04:00'',
       temperature = 58, temperatureUnit = ''F'', shortForecast = ''Cloudy'',
       isDaytime = False\<rparr>]"

definition doc_later :: string where
  \<open>doc_later =
     ''{"properties":{"periods":['' @
     ''{"name":"Friday Night","startTime":"2024-07-05T18:00:00-04:00","temperature":45,'' @
     ''"temperatureUnit":"F","shortForecast":"Mostly Clear","isDaytime":false},'' @
     ''{"name":"Saturday Night","startTime":"2024-07-06T18:00:00-04:00","temperature":58,'' @
     ''"temperatureUnit":"F","shortForecast":"Cloudy","isDaytime":false}]}}''\<close>

definition env_later :: env where
  "env_later =
     stub [(points_url0, points_doc), (grid_url, doc_later)]
       [(points_doc, Inr \<lparr>Properties_Forecast = grid_url\<rparr>)]
       [(doc_later, Inr \<lparr>Properties_Periods = periods_later\<rparr>)]"

text \<open>A forecast document with no period at all.\<close>

definition doc_empty :: string where
  \<open>doc_empty = ''{"properties":{"periods":[]}}''\<close>

definition env_empty :: env where
  "env_empty =
     stub [(points_url0, points_doc), (grid_url, doc_empty)]
       [(points_doc, Inr \<lparr>Properties_Forecast = grid_url\<rparr>)]
       [(doc_empty, Inr \<lparr>Properties_Periods = []\<rparr>)]"

text \<open>An upstream that refuses every connection.\<close>

definition env_refused :: env where
  "env_refused = stub [] [] []"

text \<open>
  A points document that is valid JSON but gives a number where the struct has a
  string: \<^verbatim>\<open>json.Unmarshal\<close> answers with an \<^verbatim>\<open>UnmarshalTypeError\<close>.
\<close>

definition doc_shape :: string where
  \<open>doc_shape = ''{"properties":{"forecast":17}}''\<close>

definition env_shape :: env where
  "env_shape = stub [(points_url0, doc_shape)] [(doc_shape, Inl UnmarshalTypeError)] []"

text \<open>A forecast with a single period, the daytime period of today.\<close>

definition periods_one :: "Period list" where
  "periods_one =
     [\<lparr>name = ''Today'', startTime = ''2024-07-04T06:00:00-04:00'', temperature = 85,
       temperatureUnit = ''F'', shortForecast = ''Mostly Sunny'', isDaytime = True\<rparr>]"

definition doc_one :: string where
  \<open>doc_one =
     ''{"properties":{"periods":['' @
     ''{"name":"Today","startTime":"2024-07-04T06:00:00-04:00","temperature":85,'' @
     ''"temperatureUnit":"F","shortForecast":"Mostly Sunny","isDaytime":true}]}}''\<close>

definition env_one :: env where
  "env_one =
     stub [(points_url0, points_doc), (grid_url, doc_one)]
       [(points_doc, Inr \<lparr>Properties_Forecast = grid_url\<rparr>)]
       [(doc_one, Inr \<lparr>Properties_Periods = periods_one\<rparr>)]"

section \<open>Properties\<close>

subsection \<open>Classification thresholds\<close>

text \<open>
  Claim C1. For every integer temperature, \<open>classify\<close> answers \<open>hot\<close> exactly
  from 80 upwards, \<open>cold\<close> exactly up to 50 and \<open>moderate\<close> exactly strictly
  between the two; both cutoffs are inclusive, which the four boundary values 79, 80,
  50 and 51 pin down. The function has no error case: on every input its value is one
  of the three labels.
\<close>

theorem classify_thresholds:
  "(classify t = ''hot'') = (t \<ge> 80)
   \<and> (classify t = ''cold'') = (t \<le> 50)
   \<and> (classify t = ''moderate'') = (50 < t \<and> t < 80)
   \<and> classify t \<in> {''hot'', ''cold'', ''moderate''}
   \<and> classify 79 = ''moderate'' \<and> classify 80 = ''hot''
   \<and> classify 50 = ''cold'' \<and> classify 51 = ''moderate''"
  by (simp add: classify_def)

subsection \<open>The resolver, step by step\<close>

text \<open>
  The resolver in terms of the two requests: each step either ends the run or hands
  over to the next one.
\<close>

lemma getForecast_steps:
  "getForecast env lat lon =
     (if \<not> url_ok env (URL (points_request lat lon)) then (Panic NilPointerDereference, [])
      else
        (case Do env [] (points_request lat lon) of
           Inl err \<Rightarrow> (Return ([], 0, [], Some err), [points_request lat lon])
         | Inr resp \<Rightarrow>
           (case Unmarshal_points env (Body resp) of
              Inl err \<Rightarrow> (Return ([], 0, [], Some err), [points_request lat lon])
            | Inr pr \<Rightarrow>
              if \<not> url_ok env (Properties_Forecast pr)
              then (Panic NilPointerDereference, [points_request lat lon])
              else
                (case Do env [points_request lat lon] (forecast_request (Properties_Forecast pr)) of
                   Inl err \<Rightarrow>
                     (Return ([], 0, [], Some err),
                      [points_request lat lon, forecast_request (Properties_Forecast pr)])
                 | Inr resp2 \<Rightarrow>
                   (case Unmarshal_forecast env (Body resp2) of
                      Inl err \<Rightarrow>
                        (Return ([], 0, [], Some err),
                         [points_request lat lon, forecast_request (Properties_Forecast pr)])
                    | Inr fr \<Rightarrow>
                      (case range_periods (Now env) (Properties_Periods fr) of
                         Some p \<Rightarrow>
                           (Return (shortForecast p, temperature p, classify (temperature p), None),
                            [points_request lat lon, forecast_request (Properties_Forecast pr)])
                       | None \<Rightarrow>
                         (case Properties_Periods fr of
                            [] \<Rightarrow>
                              (Panic IndexOutOfRange,
                               [points_request lat lon, forecast_request (Properties_Forecast pr)])
                          | p # _ \<Rightarrow>
                            (Return (shortForecast p, temperature p, classify (temperature p), None),
                             [points_request lat lon,
                              forecast_request (Properties_Forecast pr)]))))))))"
  by (simp add: getForecast_def Let_def NewRequest_def Header_Set_def ReadAll_def
      points_request_def forecast_request_def split: sum.split option.split list.split)

text \<open>For a date of ten characters the length test of the loop is implied by the comparison.\<close>

lemma range_periods_find:
  "length d = 10 \<Longrightarrow> range_periods d ps = find (daytime_on d) ps"
  by (induction ps) (auto simp: daytime_on_def)

lemma range_periods_mem:
  "range_periods d ps = Some p \<Longrightarrow> p \<in> set ps"
  by (induction ps) (auto split: if_splits)

lemma getForecast_answers:
  assumes "upstream_answers env lat lon ps"
  shows "fst (getForecast env lat lon) =
     (case range_periods (Now env) ps of
        Some p \<Rightarrow> Return (shortForecast p, temperature p, classify (temperature p), None)
      | None \<Rightarrow>
        (case ps of
           [] \<Rightarrow> Panic IndexOutOfRange
         | p # _ \<Rightarrow> Return (shortForecast p, temperature p, classify (temperature p), None)))"
  using assms
  by (auto simp: getForecast_steps upstream_answers_def
      split: sum.splits option.splits list.splits)

lemma getForecast_selected:
  assumes "upstream_answers env lat lon ps" and "ps \<noteq> []" and "length (Now env) = 10"
  shows "fst (getForecast env lat lon) =
     Return (shortForecast (selected_period (Now env) ps),
             temperature (selected_period (Now env) ps),
             classify (temperature (selected_period (Now env) ps)), None)"
proof -
  obtain p ps' where ps: "ps = p # ps'"
    using assms(2) by (cases ps) auto
  have "fst (getForecast env lat lon) =
     (case find (daytime_on (Now env)) ps of
        Some p \<Rightarrow> Return (shortForecast p, temperature p, classify (temperature p), None)
      | None \<Rightarrow>
          Return (shortForecast (hd ps), temperature (hd ps), classify (temperature (hd ps)), None))"
    unfolding getForecast_answers [OF assms(1)] range_periods_find [OF assms(3)]
    by (simp add: ps split: option.split)
  then show ?thesis
    by (simp add: selected_period_def split: option.split)
qed

text \<open>What the handler does once the query is valid: it follows the resolver.\<close>

lemma weatherHandler_valid:
  assumes "valid_query env query lat lon"
  shows "weatherHandler env query =
     (case getForecast env lat lon of
        (Panic p, out) \<Rightarrow> (Panic p, \<lparr>sent = out, logged = []\<rparr>)
      | (Return (f, t, c, Some err), out) \<Rightarrow>
          (Return \<lparr>Status = 500, ContentType = ''text/plain; charset=utf-8'',
                   Content = Text (''Failed to fetch forecast'' @ [CHR 0x0A])\<rparr>,
           \<lparr>sent = out, logged = [(''Error fetching forecast:'', err)]\<rparr>)
      | (Return (f, t, c, None), out) \<Rightarrow>
          (Return \<lparr>Status = 200, ContentType = ''application/json'',
                   Content = Json (JObject [(''forecast'', JString f),
                                           (''temperature'', JNumber t),
                                           (''classification'', JString c)])\<rparr>,
           \<lparr>sent = out, logged = []\<rparr>))"
  using assms
  by (simp add: weatherHandler_def valid_query_def Let_def http_Error_def Fprintln_def
      Encode_def
      StatusInternalServerError_def StatusOK_def
      split: prod.split outcome.split option.split)

text \<open>Facts about the concrete scenarios.\<close>

lemmas stub_simps =
  stub_def lat0_def lon0_def points_url0_def grid_url_def points_doc_def query0_def
  query_of_def Get_def points_request_def forecast_request_def digits.simps digit_def
  round_half_even_def

lemma valid_query0:
  "valid_query (stub pages pd fd) query0 lat0 lon0"
  by (simp add: valid_query_def stub_simps)

lemma points_request0:
  "points_request lat0 lon0 =
     \<lparr>Method = ''GET'', URL = points_url0,
      Header = [(''User-Agent'', ''weather-service-example'')]\<rparr>"
  by (simp add: stub_simps)

lemma upstream_answers_stub:
  "upstream_answers
     (stub [(points_url0, points_doc), (grid_url, doc)]
        [(points_doc, Inr \<lparr>Properties_Forecast = grid_url\<rparr>)]
        [(doc, Inr \<lparr>Properties_Periods = ps\<rparr>)])
     lat0 lon0 ps"
proof -
  have "grid_url \<noteq> points_url0"
    by (simp add: grid_url_def points_url0_def)
  then show ?thesis
    by (simp add: upstream_answers_def points_request0 stub_def forecast_request_def)
qed

subsection \<open>Selection of the forecast period\<close>

text \<open>
  Claim C2. Let both upstream exchanges go through and the forecast document decode to
  a non-empty sequence of periods, and let the current date \<open>d\<close> be a text of ten
  characters (the form \<open>YYYY-MM-DD\<close>). Then the resolver returns, without error, the
  data of the first period in sequence order that is a daytime period and whose start
  time begins with \<open>d\<close>, and the data of the first period of the sequence when no
  period is such; in both cases a handler called with a valid query replies 200 with
  the data of that period.
\<close>

theorem selection_policy:
  assumes "upstream_answers env lat lon ps" and "ps \<noteq> []" and "length (Now env) = 10"
  shows "fst (getForecast env lat lon) =
           Return (shortForecast (selected_period (Now env) ps),
                   temperature (selected_period (Now env) ps),
                   classify (temperature (selected_period (Now env) ps)), None)
         \<and> (valid_query env query lat lon \<longrightarrow>
              fst (weatherHandler env query) = Return (reply_for (selected_period (Now env) ps)))"
proof (intro conjI impI)
  show r: "fst (getForecast env lat lon) =
           Return (shortForecast (selected_period (Now env) ps),
                   temperature (selected_period (Now env) ps),
                   classify (temperature (selected_period (Now env) ps)), None)"
    by (rule getForecast_selected [OF assms])
  assume "valid_query env query lat lon"
  from weatherHandler_valid [OF this] r
  show "fst (weatherHandler env query) = Return (reply_for (selected_period (Now env) ps))"
    by (cases "getForecast env lat lon") (simp add: reply_for_def)
qed

text \<open>
  On 4 July 2024 the forecast \<open>periods_today\<close> yields its second period (the first is
  of today but at night), and the forecast \<open>periods_later\<close>, which has no daytime
  period of today, yields its first.
\<close>

theorem selection_policy_witness:
  "fst (weatherHandler env_today query0) =
     Return \<lparr>Status = 200, ContentType = ''application/json'',
             Content = Json (JObject [(''forecast'', JString ''Sunny''),
                                     (''temperature'', JNumber 85),
                                     (''classification'', JString ''hot'')])\<rparr>
   \<and> fst (weatherHandler env_later query0) =
     Return \<lparr>Status = 200, ContentType = ''application/json'',
             Content = Json (JObject [(''forecast'', JString ''Mostly Clear''),
                                     (''temperature'', JNumber 45),
                                     (''classification'', JString ''cold'')])\<rparr>"
proof -
  have a: "upstream_answers env_today lat0 lon0 periods_today"
    unfolding env_today_def by (rule upstream_answers_stub)
  have b: "upstream_answers env_later lat0 lon0 periods_later"
    unfolding env_later_def by (rule upstream_answers_stub)
  have n: "periods_today \<noteq> []" "periods_later \<noteq> []"
    by (simp_all add: periods_today_def periods_later_def)
  have d: "length (Now env_today) = 10" "length (Now env_later) = 10"
    by (simp_all add: env_today_def env_later_def stub_def)
  have q: "valid_query env_today query0 lat0 lon0" "valid_query env_later query0 lat0 lon0"
    unfolding env_today_def env_later_def by (rule valid_query0)+
  have s: "selected_period (Now env_today) periods_today = periods_today ! 1"
    "selected_period (Now env_later) periods_later = periods_later ! 0"
    by (simp_all add: selected_period_def daytime_on_def periods_today_def periods_later_def
        env_today_def env_later_def stub_def)
  from selection_policy [OF a n(1) d(1), of query0] selection_policy [OF b n(2) d(2), of query0]
    q s
  show ?thesis
    by (simp add: reply_for_def periods_today_def periods_later_def classify_def)
qed

subsection \<open>An empty forecast\<close>

text \<open>
  Claim C3 asks that a forecast without periods be reported as an error with a reply
  of the 500 class. The program does not do so. When both exchanges go through and the
  forecast document decodes to the empty sequence, the loop finds nothing and the
  unguarded \<^verbatim>\<open>Periods[0]\<close> panics: the resolver returns no error and the handler
  writes no reply. The theorem runs the handler on the request
  \<^verbatim>\<open>GET /weather?lat=38.5&lon=-77.25\<close> against the upstream of \<open>env_empty\<close>.
\<close>

theorem empty_forecast_panics:
  "upstream_answers env_empty lat0 lon0 []
   \<and> fst (getForecast env_empty lat0 lon0) = Panic IndexOutOfRange
   \<and> weatherHandler env_empty query0 =
       (Panic IndexOutOfRange,
        \<lparr>sent = [points_request lat0 lon0, forecast_request grid_url], logged = []\<rparr>)"
proof -
  have a: "upstream_answers env_empty lat0 lon0 []"
    unfolding env_empty_def by (rule upstream_answers_stub)
  have g: "getForecast env_empty lat0 lon0 =
      (Panic IndexOutOfRange, [points_request lat0 lon0, forecast_request grid_url])"
    using a
    by (auto simp: getForecast_steps upstream_answers_def env_empty_def stub_def
        points_request0 forecast_request_def grid_url_def points_url0_def
        split: sum.splits)
  have q: "valid_query env_empty query0 lat0 lon0"
    unfolding env_empty_def by (rule valid_query0)
  show ?thesis
    using a g by (simp add: weatherHandler_valid [OF q])
qed

subsection \<open>Validation of the query\<close>

text \<open>
  Claim C4 says that the body of each of the three replies is exactly the message. It
  is not: \<^verbatim>\<open>http.Error\<close> ends the message with a newline, so the body of the reply
  to \<^verbatim>\<open>GET /weather?lat=38.5\<close> is \<open>Missing lat or lon parameter\<close> followed by a
  newline, which is not the text \<open>Missing lat or lon parameter\<close>.
\<close>

theorem validation_body_counterexample:
  "fst (weatherHandler env_today (query_of [''38.5''] [])) =
     Return \<lparr>Status = 400, ContentType = ''text/plain; charset=utf-8'',
             Content = Text (''Missing lat or lon parameter'' @ [CHR 0x0A])\<rparr>
   \<and> fst (weatherHandler env_today (query_of [''38.5''] [])) \<noteq>
     Return \<lparr>Status = 400, ContentType = ''text/plain; charset=utf-8'',
             Content = Text ''Missing lat or lon parameter''\<rparr>"
  by (simp add: weatherHandler_def Let_def Get_def query_of_def http_Error_def Fprintln_def
      StatusBadRequest_def)

text \<open>
  Claim C4, amended. The handler validates in this order, each failure giving a reply
  400 whose body is a fixed message followed by a newline. A parameter counts as
  missing when \<^verbatim>\<open>Get\<close> answers the empty string for it, that is when the key is
  absent from the query or its first value is empty. If \<open>lat\<close> or \<open>lon\<close> is
  missing, the message is \<open>Missing lat or lon parameter\<close>; otherwise, if \<open>lat\<close>
  does not parse, it is \<open>Invalid latitude\<close>; otherwise, if \<open>lon\<close> does not parse,
  it is \<open>Invalid longitude\<close>.
\<close>

theorem validation_order:
  "(Get query ''lat'' = []) = (query ''lat'' = [] \<or> hd (query ''lat'') = [])
   \<and> (Get query ''lon'' = []) = (query ''lon'' = [] \<or> hd (query ''lon'') = [])
   \<and> (Get query ''lat'' = [] \<or> Get query ''lon'' = [] \<longrightarrow>
        fst (weatherHandler env query) =
          Return \<lparr>Status = 400, ContentType = ''text/plain; charset=utf-8'',
                  Content = Text (''Missing lat or lon parameter'' @ [CHR 0x0A])\<rparr>)
   \<and> (Get query ''lat'' \<noteq> [] \<and> Get query ''lon'' \<noteq> []
        \<and> ParseFloat env (Get query ''lat'') = None \<longrightarrow>
        fst (weatherHandler env query) =
          Return \<lparr>Status = 400, ContentType = ''text/plain; charset=utf-8'',
                  Content = Text (''Invalid latitude'' @ [CHR 0x0A])\<rparr>)
   \<and> (Get query ''lat'' \<noteq> [] \<and> Get query ''lon'' \<noteq> []
        \<and> ParseFloat env (Get query ''lat'') \<noteq> None
        \<and> ParseFloat env (Get query ''lon'') = None \<longrightarrow>
        fst (weatherHandler env query) =
          Return \<lparr>Status = 400, ContentType = ''text/plain; charset=utf-8'',
                  Content = Text (''Invalid longitude'' @ [CHR 0x0A])\<rparr>)"
proof -
  have g: "(Get query k = []) = (query k = [] \<or> hd (query k) = [])" for k
    by (cases "query k") (simp_all add: Get_def)
  show ?thesis
    unfolding g
    by (auto simp: weatherHandler_def Let_def g http_Error_def Fprintln_def
        StatusBadRequest_def split: option.splits)
qed

text \<open>
  The requests \<^verbatim>\<open>/weather?lat=38.5\<close>, \<^verbatim>\<open>/weather?lat=abc&lon=-77.25\<close>,
  \<^verbatim>\<open>/weather?lat=38.5&lon=abc\<close> and \<^verbatim>\<open>/weather?lat=&lon=-77.25\<close>; in the
  second one the longitude parses, in the third one the latitude does, and in the last
  one the latitude is present but empty.
\<close>

theorem validation_order_witness:
  "fst (weatherHandler env_today (query_of [''38.5''] [])) =
     Return \<lparr>Status = 400, ContentType = ''text/plain; charset=utf-8'',
             Content = Text (''Missing lat or lon parameter'' @ [CHR 0x0A])\<rparr>
   \<and> fst (weatherHandler env_today (query_of [''abc''] [''-77.25''])) =
     Return \<lparr>Status = 400, ContentType = ''text/plain; charset=utf-8'',
             Content = Text (''Invalid latitude'' @ [CHR 0x0A])\<rparr>
   \<and> fst (weatherHandler env_today (query_of [''38.5''] [''abc''])) =
     Return \<lparr>Status = 400, ContentType = ''text/plain; charset=utf-8'',
             Content = Text (''Invalid longitude'' @ [CHR 0x0A])\<rparr>
   \<and> fst (weatherHandler env_today (query_of [[]] [''-77.25''])) =
     Return \<lparr>Status = 400, ContentType = ''text/plain; charset=utf-8'',
             Content = Text (''Missing lat or lon parameter'' @ [CHR 0x0A])\<rparr>"
proof -
  have 1: "query_of [''38.5''] [] ''lon'' = []"
    by (simp add: query_of_def)
  have 2: "Get (query_of [''abc''] [''-77.25'']) ''lat'' \<noteq> []
      \<and> Get (query_of [''abc''] [''-77.25'']) ''lon'' \<noteq> []
      \<and> ParseFloat env_today (Get (query_of [''abc''] [''-77.25'']) ''lat'') = None"
    by (simp add: query_of_def Get_def env_today_def stub_def)
  have 3: "Get (query_of [''38.5''] [''abc'']) ''lat'' \<noteq> []
      \<and> Get (query_of [''38.5''] [''abc'']) ''lon'' \<noteq> []
      \<and> ParseFloat env_today (Get (query_of [''38.5''] [''abc'']) ''lat'') \<noteq> None
      \<and> ParseFloat env_today (Get (query_of [''38.5''] [''abc'']) ''lon'') = None"
    by (simp add: query_of_def Get_def env_today_def stub_def)
  have 4: "query_of [[]] [''-77.25''] ''lat'' \<noteq> []
      \<and> hd (query_of [[]] [''-77.25''] ''lat'') = []"
    by (simp add: query_of_def)
  from validation_order [of "query_of [''38.5''] []" env_today] 1
  have a: "fst (weatherHandler env_today (query_of [''38.5''] [])) =
     Return \<lparr>Status = 400, ContentType = ''text/plain; charset=utf-8'',
             Content = Text (''Missing lat or lon parameter'' @ [CHR 0x0A])\<rparr>"
    by blast
  from validation_order [of "query_of [''abc''] [''-77.25'']" env_today] 2
  have b: "fst (weatherHandler env_today (query_of [''abc''] [''-77.25''])) =
     Return \<lparr>Status = 400, ContentType = ''text/plain; charset=utf-8'',
             Content = Text (''Invalid latitude'' @ [CHR 0x0A])\<rparr>"
    by blast
  from validation_order [of "query_of [''38.5''] [''abc'']" env_today] 3
  have c: "fst (weatherHandler env_today (query_of [''38.5''] [''abc''])) =
     Return \<lparr>Status = 400, ContentType = ''text/plain; charset=utf-8'',
             Content = Text (''Invalid longitude'' @ [CHR 0x0A])\<rparr>"
    by blast
  from validation_order [of "query_of [[]] [''-77.25'']" env_today] 4
  have d: "fst (weatherHandler env_today (query_of [[]] [''-77.25''])) =
     Return \<lparr>Status = 400, ContentType = ''text/plain; charset=utf-8'',
             Content = Text (''Missing lat or lon parameter'' @ [CHR 0x0A])\<rparr>"
    by blast
  from a b c d show ?thesis by blast
qed

subsection \<open>Failure of the resolver\<close>

text \<open>
  Claim C5 says that the body of the reply is exactly \<open>Failed to fetch forecast\<close>.
  It is that text followed by the newline with which \<^verbatim>\<open>http.Error\<close> ends a
  message, as the reply to \<^verbatim>\<open>GET /weather?lat=38.5&lon=-77.25\<close> shows when the
  upstream refuses the connection.
\<close>

theorem failure_body_counterexample:
  "fst (weatherHandler env_refused query0) =
     Return \<lparr>Status = 500, ContentType = ''text/plain; charset=utf-8'',
             Content = Text (''Failed to fetch forecast'' @ [CHR 0x0A])\<rparr>
   \<and> fst (weatherHandler env_refused query0) \<noteq>
     Return \<lparr>Status = 500, ContentType = ''text/plain; charset=utf-8'',
             Content = Text ''Failed to fetch forecast''\<rparr>"
proof -
  have q: "valid_query env_refused query0 lat0 lon0"
    unfolding env_refused_def by (rule valid_query0)
  have "getForecast env_refused lat0 lon0 =
      (Return ([], 0, [], Some (url_Error ''connection refused'')), [points_request lat0 lon0])"
    by (simp add: getForecast_steps env_refused_def stub_def)
  then show ?thesis
    by (simp add: weatherHandler_valid [OF q])
qed

text \<open>
  Claim C5, amended. Whenever the resolver returns an error, whatever the error is, the
  reply is 500 and its body is \<open>Failed to fetch forecast\<close> followed by a newline:
  the reply is the same for every error, so it carries nothing of it. The error goes to
  the log, and only there.
\<close>

theorem resolver_failure_reply:
  assumes "valid_query env query lat lon"
    and "getForecast env lat lon = (Return (f, t, c, Some err), out)"
  shows "weatherHandler env query =
     (Return \<lparr>Status = 500, ContentType = ''text/plain; charset=utf-8'',
              Content = Text (''Failed to fetch forecast'' @ [CHR 0x0A])\<rparr>,
      \<lparr>sent = out, logged = [(''Error fetching forecast:'', err)]\<rparr>)"
  by (simp add: weatherHandler_valid [OF assms(1)] assms(2))

text \<open>
  The points call is refused in \<open>env_refused\<close>; in \<open>env_shape\<close> the points document
  does not decode. The two errors differ, the two replies do not.
\<close>

theorem resolver_failure_reply_witness:
  "weatherHandler env_refused query0 =
     (Return \<lparr>Status = 500, ContentType = ''text/plain; charset=utf-8'',
              Content = Text (''Failed to fetch forecast'' @ [CHR 0x0A])\<rparr>,
      \<lparr>sent = [points_request lat0 lon0],
       logged = [(''Error fetching forecast:'', url_Error ''connection refused'')]\<rparr>)
   \<and> weatherHandler env_shape query0 =
     (Return \<lparr>Status = 500, ContentType = ''text/plain; charset=utf-8'',
              Content = Text (''Failed to fetch forecast'' @ [CHR 0x0A])\<rparr>,
      \<lparr>sent = [points_request lat0 lon0],
       logged = [(''Error fetching forecast:'', UnmarshalTypeError)]\<rparr>)"
proof -
  have q: "valid_query env_refused query0 lat0 lon0" "valid_query env_shape query0 lat0 lon0"
    unfolding env_refused_def env_shape_def by (rule valid_query0)+
  have a: "getForecast env_refused lat0 lon0 =
      (Return ([], 0, [], Some (url_Error ''connection refused'')), [points_request lat0 lon0])"
    by (simp add: getForecast_steps env_refused_def stub_def)
  have b: "getForecast env_shape lat0 lon0 =
      (Return ([], 0, [], Some UnmarshalTypeError), [points_request lat0 lon0])"
    by (simp add: getForecast_steps env_shape_def stub_def points_request0)
  from resolver_failure_reply [OF q(1) a] resolver_failure_reply [OF q(2) b]
  show ?thesis by simp
qed

subsection \<open>The successful reply\<close>

text \<open>
  Claim C6. Whenever the resolver succeeds on the coordinates of a valid query, the
  reply has status 200, content type \<open>application/json\<close> and, as its body, an object
  with exactly the members \<open>forecast\<close>, \<open>temperature\<close> and \<open>classification\<close>, in
  this order, holding the three values the resolver returned. The first two are the
  short forecast and the temperature of the period that the resolver selected out of
  the periods of the forecast document (the date being a text of ten characters).
\<close>

theorem success_reply:
  assumes "valid_query env query lat lon"
    and "getForecast env lat lon = (Return (f, t, c, None), out)"
    and "length (Now env) = 10"
  shows "fst (weatherHandler env query) =
           Return \<lparr>Status = 200, ContentType = ''application/json'',
                   Content = Json (JObject [(''forecast'', JString f),
                                           (''temperature'', JNumber t),
                                           (''classification'', JString c)])\<rparr>
         \<and> (\<exists>ps. upstream_answers env lat lon ps \<and> ps \<noteq> []
                \<and> f = shortForecast (selected_period (Now env) ps)
                \<and> t = temperature (selected_period (Now env) ps))"
proof
  show "fst (weatherHandler env query) =
           Return \<lparr>Status = 200, ContentType = ''application/json'',
                   Content = Json (JObject [(''forecast'', JString f),
                                           (''temperature'', JNumber t),
                                           (''classification'', JString c)])\<rparr>"
    by (simp add: weatherHandler_valid [OF assms(1)] assms(2))
  from assms(2) obtain ps where a: "upstream_answers env lat lon ps" and n: "ps \<noteq> []"
    by (fastforce simp: getForecast_steps upstream_answers_def
        split: if_splits sum.splits option.splits list.splits dest: range_periods_mem)
  from getForecast_selected [OF a n assms(3)] assms(2)
  have "f = shortForecast (selected_period (Now env) ps)
      \<and> t = temperature (selected_period (Now env) ps)"
    by simp
  with a n
  show "\<exists>ps. upstream_answers env lat lon ps \<and> ps \<noteq> []
            \<and> f = shortForecast (selected_period (Now env) ps)
            \<and> t = temperature (selected_period (Now env) ps)"
    by blast
qed

text \<open>
  A forecast with one daytime period of today, at 85 degrees: the reply is 200 with that
  period's short forecast, the temperature 85 and the label \<open>hot\<close>.
\<close>

theorem success_reply_witness:
  "fst (weatherHandler env_one query0) =
     Return \<lparr>Status = 200, ContentType = ''application/json'',
             Content = Json (JObject [(''forecast'', JString ''Mostly Sunny''),
                                     (''temperature'', JNumber 85),
                                     (''classification'', JString ''hot'')])\<rparr>"
proof -
  have q: "valid_query env_one query0 lat0 lon0"
    unfolding env_one_def by (rule valid_query0)
  have a: "upstream_answers env_one lat0 lon0 periods_one"
    unfolding env_one_def by (rule upstream_answers_stub)
  have d: "length (Now env_one) = 10"
    by (simp add: env_one_def stub_def)
  have t: "Now env_one = ''2024-07-04''"
    by (simp add: env_one_def stub_def)
  have "fst (getForecast env_one lat0 lon0) = Return (''Mostly Sunny'', 85, ''hot'', None)"
    unfolding getForecast_answers [OF a] t
    by (simp add: periods_one_def classify_def)
  then obtain out where
    g: "getForecast env_one lat0 lon0 = (Return (''Mostly Sunny'', 85, ''hot'', None), out)"
    by (cases "getForecast env_one lat0 lon0") simp
  from success_reply [OF q g d] show ?thesis
    by blast
qed

text \<open>The two complete runs of the handler on the forecasts of 4 July 2024.\<close>

lemma run_today:
  "weatherHandler env_today query0 =
     (Return \<lparr>Status = 200, ContentType = ''application/json'',
              Content = Json (JObject [(''forecast'', JString ''Sunny''),
                                      (''temperature'', JNumber 85),
                                      (''classification'', JString ''hot'')])\<rparr>,
      \<lparr>sent = [points_request lat0 lon0, forecast_request grid_url], logged = []\<rparr>)"
proof -
  have q: "valid_query env_today query0 lat0 lon0"
    unfolding env_today_def by (rule valid_query0)
  have u: "grid_url \<noteq> points_url0"
    by (simp add: grid_url_def points_url0_def)
  have "getForecast env_today lat0 lon0 =
      (Return (''Sunny'', 85, ''hot'', None), [points_request lat0 lon0, forecast_request grid_url])"
    using u
    by (simp add: getForecast_steps points_request0 env_today_def stub_def forecast_request_def
        periods_today_def classify_def)
  then show ?thesis
    by (simp add: weatherHandler_valid [OF q])
qed

lemma run_later:
  "weatherHandler env_later query0 =
     (Return \<lparr>Status = 200, ContentType = ''application/json'',
              Content = Json (JObject [(''forecast'', JString ''Mostly Clear''),
                                      (''temperature'', JNumber 45),
                                      (''classification'', JString ''cold'')])\<rparr>,
      \<lparr>sent = [points_request lat0 lon0, forecast_request grid_url], logged = []\<rparr>)"
proof -
  have q: "valid_query env_later query0 lat0 lon0"
    unfolding env_later_def by (rule valid_query0)
  have u: "grid_url \<noteq> points_url0"
    by (simp add: grid_url_def points_url0_def)
  have "getForecast env_later lat0 lon0 =
      (Return (''Mostly Clear'', 45, ''cold'', None),
       [points_request lat0 lon0, forecast_request grid_url])"
    using u
    by (simp add: getForecast_steps points_request0 env_later_def stub_def forecast_request_def
        periods_later_def classify_def)
  then show ?thesis
    by (simp add: weatherHandler_valid [OF q])
qed

subsection \<open>Classification and temperature agree\<close>

text \<open>
  Claim C9. In every successful result the classification is \<open>classify\<close> of the
  temperature of the same result: this holds for what the resolver returns with a
  \<^verbatim>\<open>nil\<close> error and for the members of every reply with status 200, whether the
  period was found by the loop or taken by the fallback.
\<close>

theorem classification_agrees:
  "(getForecast env lat lon = (Return (f, t, c, None), out) \<longrightarrow> c = classify t)
   \<and> (weatherHandler env query = (Return r, eff) \<and> Status r = 200 \<longrightarrow>
        (\<exists>f t. Content r = Json (JObject [(''forecast'', JString f),
                                          (''temperature'', JNumber t),
                                          (''classification'', JString (classify t))])))"
proof (intro conjI impI)
  show c: "c = classify t" if "getForecast env lat lon = (Return (f, t, c, None), out)"
    for env lat lon f t c out
    using that
    by (auto simp: getForecast_steps split: if_splits sum.splits option.splits list.splits)
  assume h: "weatherHandler env query = (Return r, eff) \<and> Status r = 200"
  show "\<exists>f t. Content r = Json (JObject [(''forecast'', JString f),
                                          (''temperature'', JNumber t),
                                          (''classification'', JString (classify t))])"
  proof (cases "\<exists>lat lon. valid_query env query lat lon")
    case True
    then obtain lat lon where q: "valid_query env query lat lon"
      by blast
    obtain res out where g: "getForecast env lat lon = (res, out)"
      by (cases "getForecast env lat lon")
    from h g obtain f t c where "res = Return (f, t, c, None)"
      and "Content r = Json (JObject [(''forecast'', JString f),
                                      (''temperature'', JNumber t),
                                      (''classification'', JString c)])"
      unfolding weatherHandler_valid [OF q]
      by (auto split: outcome.splits option.splits)
    with c g show ?thesis
      by blast
  next
    case False
    with h show ?thesis
      by (auto simp: weatherHandler_def valid_query_def Let_def http_Error_def Fprintln_def
          StatusBadRequest_def split: if_splits option.splits)
  qed
qed

text \<open>
  The loop finds the period in \<open>env_today\<close> (85 degrees, \<open>hot\<close>); the fallback takes
  it in \<open>env_later\<close> (45 degrees, \<open>cold\<close>).
\<close>

theorem classification_agrees_witness:
  "(\<exists>r eff. weatherHandler env_today query0 = (Return r, eff) \<and> Status r = 200
      \<and> Content r = Json (JObject [(''forecast'', JString ''Sunny''),
                                      (''temperature'', JNumber 85),
                                      (''classification'', JString (classify 85))]))
   \<and> (\<exists>r eff. weatherHandler env_later query0 = (Return r, eff) \<and> Status r = 200
      \<and> Content r = Json (JObject [(''forecast'', JString ''Mostly Clear''),
                                      (''temperature'', JNumber 45),
                                      (''classification'', JString (classify 45))]))"
proof -
  obtain r eff where 1: "weatherHandler env_today query0 = (Return r, eff)"
    and s1: "Status r = 200"
    and c1: "\<exists>c. Content r = Json (JObject [(''forecast'', JString ''Sunny''),
                                             (''temperature'', JNumber 85),
                                             (''classification'', JString c)])"
    by (simp add: run_today)
  obtain r' eff' where 2: "weatherHandler env_later query0 = (Return r', eff')"
    and s2: "Status r' = 200"
    and c2: "\<exists>c. Content r' = Json (JObject [(''forecast'', JString ''Mostly Clear''),
                                              (''temperature'', JNumber 45),
                                              (''classification'', JString c)])"
    by (simp add: run_later)
  from classification_agrees [of env_today lat0 lon0 "[]" 0 "[]" "[]" query0 r eff] 1 s1 c1
  have "Content r = Json (JObject [(''forecast'', JString ''Sunny''),
                                   (''temperature'', JNumber 85),
                                   (''classification'', JString (classify 85))])"
    by auto
  moreover
  from classification_agrees [of env_later lat0 lon0 "[]" 0 "[]" "[]" query0 r' eff'] 2 s2 c2
  have "Content r' = Json (JObject [(''forecast'', JString ''Mostly Clear''),
                                    (''temperature'', JNumber 45),
                                    (''classification'', JString (classify 45))])"
    by auto
  ultimately show ?thesis
    using 1 2 s1 s2 by blast
qed

subsection \<open>An invalid request reaches no upstream\<close>

text \<open>
  Claim C10. When \<open>lat\<close> or \<open>lon\<close> is missing or does not parse, the handler replies
  400 and sends no request upstream. The resolver is not consulted: the outcome is the
  same in every environment that parses numbers the same way, whatever its upstream,
  its decoders and its clock are.
\<close>

theorem invalid_request_stays_local:
  assumes "Get query ''lat'' = [] \<or> Get query ''lon'' = []
           \<or> ParseFloat env (Get query ''lat'') = None
           \<or> ParseFloat env (Get query ''lon'') = None"
  shows "(\<exists>msg. fst (weatherHandler env query) = Return (http_Error msg 400))
         \<and> sent (snd (weatherHandler env query)) = []
         \<and> (\<forall>env'. ParseFloat env' = ParseFloat env \<longrightarrow>
               weatherHandler env' query = weatherHandler env query)"
  using assms
  by (auto simp: weatherHandler_def Let_def StatusBadRequest_def split: option.splits)

text \<open>
  The request \<^verbatim>\<open>/weather?lat=38.5&lon=abc\<close>, in an environment whose upstream would
  answer and in one whose upstream refuses every connection.
\<close>

theorem invalid_request_stays_local_witness:
  "fst (weatherHandler env_today (query_of [''38.5''] [''abc''])) =
     Return (http_Error ''Invalid longitude'' 400)
   \<and> sent (snd (weatherHandler env_today (query_of [''38.5''] [''abc'']))) = []
   \<and> weatherHandler env_refused (query_of [''38.5''] [''abc'']) =
     weatherHandler env_today (query_of [''38.5''] [''abc''])"
proof -
  have h: "Get (query_of [''38.5''] [''abc'']) ''lat'' = []
      \<or> Get (query_of [''38.5''] [''abc'']) ''lon'' = []
      \<or> ParseFloat env_today (Get (query_of [''38.5''] [''abc'']) ''lat'') = None
      \<or> ParseFloat env_today (Get (query_of [''38.5''] [''abc'']) ''lon'') = None"
    by (simp add: query_of_def Get_def env_today_def stub_def)
  have p: "ParseFloat env_refused = ParseFloat env_today"
    by (simp add: env_refused_def env_today_def stub_def)
  have m: "fst (weatherHandler env_today (query_of [''38.5''] [''abc''])) =
      Return (http_Error ''Invalid longitude'' 400)"
    by (simp add: weatherHandler_def Let_def StatusBadRequest_def query_of_def Get_def
        env_today_def stub_def)
  from invalid_request_stays_local [OF h] p m show ?thesis
    by blast
qed

subsection \<open>The points request and the client header\<close>

text \<open>Decimal digits, and the text of a finite coordinate.\<close>

lemma is_digit_digit: "is_digit (digit n)"
proof -
  have "n mod 10 < length ''0123456789''"
    by simp
  then have "''0123456789'' ! (n mod 10) \<in> set ''0123456789''"
    by (rule nth_mem)
  then show ?thesis
    by (simp only: is_digit_def digit_def)
qed

lemma digits_nonempty: "digits n \<noteq> []"
  by (subst digits.simps) simp

lemma digits_all: "list_all is_digit (digits n)"
proof (induction n rule: digits.induct)
  case (1 n)
  then show ?case
    by (subst digits.simps) (simp add: is_digit_digit)
qed

lemma is_digit_plain: "is_digit c \<Longrightarrow> c \<noteq> CHR ''-'' \<and> c \<noteq> CHR '','' \<and> c \<noteq> CHR ''.''"
  by (auto simp: is_digit_def)

lemma four_decimals_fixed:
  assumes "list_all is_digit ds" and "ds \<noteq> []"
    and "is_digit a" and "is_digit b" and "is_digit c" and "is_digit d"
  shows "four_decimals ((if neg then ''-'' else []) @ ds @ ''.'' @ [a, b, c, d])"
proof -
  obtain x xs where ds: "ds = x # xs"
    using assms(2) by (cases ds) auto
  have x: "x \<noteq> CHR ''-''"
    using assms(1) is_digit_plain by (simp add: ds)
  have u: "(if take 1 ((if neg then ''-'' else []) @ ds @ ''.'' @ [a, b, c, d]) = ''-''
            then drop 1 ((if neg then ''-'' else []) @ ds @ ''.'' @ [a, b, c, d])
            else (if neg then ''-'' else []) @ ds @ ''.'' @ [a, b, c, d])
           = ds @ ''.'' @ [a, b, c, d]"
    using x by (simp add: ds)
  have k: "length (ds @ ''.'' @ [a, b, c, d]) - 5 = length ds"
    by simp
  show ?thesis
    unfolding four_decimals_def Let_def u k
    using assms by (simp add: ds nth_append)
qed

lemma comma_free_fixed:
  assumes "list_all is_digit ds"
    and "is_digit a" and "is_digit b" and "is_digit c" and "is_digit d"
  shows "CHR '','' \<notin> set ((if neg then ''-'' else []) @ ds @ ''.'' @ [a, b, c, d])"
  using assms is_digit_plain by (auto simp: list_all_iff)

lemma fmt_4f_shape:
  "\<exists>ds a b c d.
     fmt_4f (Finite neg m e) = (if neg then ''-'' else []) @ ds @ ''.'' @ [a, b, c, d]
     \<and> list_all is_digit ds \<and> ds \<noteq> []
     \<and> is_digit a \<and> is_digit b \<and> is_digit c \<and> is_digit d"
proof -
  define n where "n = (if e \<ge> 0 then m * 2 ^ nat e * 10000
                       else round_half_even (m * 10000) (2 ^ nat (- e)))"
  have "fmt_4f (Finite neg m e) =
      (if neg then ''-'' else []) @ digits (n div 10000) @ ''.''
        @ [digit (n div 1000), digit (n div 100), digit (n div 10), digit n]"
    by (simp add: n_def Let_def)
  then show ?thesis
    using digits_all digits_nonempty is_digit_digit by blast
qed

lemma four_decimals_fmt: "four_decimals (fmt_4f (Finite neg m e))"
proof -
  obtain ds a b c d where
    eq: "fmt_4f (Finite neg m e) = (if neg then ''-'' else []) @ ds @ ''.'' @ [a, b, c, d]"
    and ds: "list_all is_digit ds" "ds \<noteq> []"
    and abcd: "is_digit a" "is_digit b" "is_digit c" "is_digit d"
    using fmt_4f_shape by blast
  show ?thesis
    unfolding eq by (rule four_decimals_fixed [OF ds abcd])
qed

lemma comma_free_fmt: "CHR '','' \<notin> set (fmt_4f (Finite neg m e))"
proof -
  obtain ds a b c d where
    eq: "fmt_4f (Finite neg m e) = (if neg then ''-'' else []) @ ds @ ''.'' @ [a, b, c, d]"
    and ds: "list_all is_digit ds"
    and abcd: "is_digit a" "is_digit b" "is_digit c" "is_digit d"
    using fmt_4f_shape by blast
  show ?thesis
    unfolding eq by (rule comma_free_fixed [OF ds abcd])
qed

lemma url_coordinates_points:
  assumes "CHR '','' \<notin> set a"
  shows "url_coordinates (points_prefix @ a @ '','' @ b) = (a, b)"
proof -
  have a: "x \<noteq> CHR '',''" if "x \<in> set a" for x
    using assms that by auto
  have "takeWhile (\<lambda>c. c \<noteq> CHR '','') (a @ CHR '','' # b) = a"
    by (subst takeWhile_append2) (simp_all add: a)
  moreover have "dropWhile (\<lambda>c. c \<noteq> CHR '','') (a @ CHR '','' # b) = CHR '','' # b"
    by (subst dropWhile_append2) (simp_all add: a)
  ultimately show ?thesis
    by (simp add: url_coordinates_def)
qed

lemma URL_points_request:
  "URL (points_request lat lon) = points_prefix @ fmt_4f lat @ '','' @ fmt_4f lon"
  by (simp add: points_request_def points_prefix_def)

lemma sent_requests:
  "\<exists>u. snd (getForecast env lat lon) = []
      \<or> snd (getForecast env lat lon) = [points_request lat lon]
      \<or> snd (getForecast env lat lon) = [points_request lat lon, forecast_request u]"
  by (auto simp: getForecast_steps split: sum.split option.split list.split)

text \<open>
  Claim C7 says that both coordinates are printed with exactly four decimals for every
  pair of coordinates. A coordinate that is not a number is printed as the word
  \<open>NaN\<close>: the request \<^verbatim>\<open>GET /weather?lat=NaN&lon=-77.25\<close> passes the validation
  and makes the resolver ask for \<^verbatim>\<open>https://api.weather.gov/points/NaN,-77.2500\<close>.
\<close>

theorem nan_coordinate_counterexample:
  "valid_query env_today (query_of [''NaN''] [''-77.25'']) NaN lon0
   \<and> sent (snd (weatherHandler env_today (query_of [''NaN''] [''-77.25'']))) =
       [points_request NaN lon0]
   \<and> URL (points_request NaN lon0) = ''https://api.weather.gov/points/NaN,-77.2500''
   \<and> \<not> four_decimal_url (URL (points_request NaN lon0))"
proof -
  have q: "valid_query env_today (query_of [''NaN''] [''-77.25'']) NaN lon0"
    by (simp add: valid_query_def env_today_def stub_simps)
  have u: "URL (points_request NaN lon0) = ''https://api.weather.gov/points/NaN,-77.2500''"
    by (simp add: stub_simps)
  have g: "getForecast env_today NaN lon0 =
      (Return ([], 0, [], Some (url_Error ''connection refused'')), [points_request NaN lon0])"
    by (simp add: getForecast_steps u env_today_def stub_def points_url0_def grid_url_def)
  have n: "\<not> four_decimal_url (URL (points_request NaN lon0))"
    unfolding u
    by (simp add: four_decimal_url_def url_coordinates_def points_prefix_def four_decimals_def
        is_digit_def)
  from q g u n show ?thesis
    by (simp add: weatherHandler_valid [OF q])
qed

text \<open>
  Claim C7, amended. For every pair of finite coordinates the URL of the points request
  is the fixed prefix followed by the two coordinates, each printed with exactly four
  decimals, with a comma between them. For every pair of coordinates the resolver sends
  nothing, the points request, or the points request and then a forecast request; it
  sends the points request whenever that request can be built, and the forecast request
  for the URL of the points document once that document is decoded and the request can
  be built. Every request it sends carries the header \<open>User-Agent\<close> with the value
  \<open>weather-service-example\<close>, which is not empty.
\<close>

theorem requests_of_resolver:
  "(is_finite lat \<and> is_finite lon \<longrightarrow> four_decimal_url (URL (points_request lat lon)))
   \<and> (\<exists>u. snd (getForecast env lat lon) = []
          \<or> snd (getForecast env lat lon) = [points_request lat lon]
          \<or> snd (getForecast env lat lon) = [points_request lat lon, forecast_request u])
   \<and> (url_ok env (URL (points_request lat lon)) \<longrightarrow>
        hd (snd (getForecast env lat lon)) = points_request lat lon
        \<and> snd (getForecast env lat lon) \<noteq> [])
   \<and> (url_ok env (URL (points_request lat lon))
        \<and> Do env [] (points_request lat lon) = Inr r1
        \<and> Unmarshal_points env (Body r1) = Inr pr
        \<and> url_ok env (Properties_Forecast pr) \<longrightarrow>
        snd (getForecast env lat lon) =
          [points_request lat lon, forecast_request (Properties_Forecast pr)])
   \<and> (\<forall>r \<in> set (snd (getForecast env lat lon)).
        Header_Get r ''User-Agent'' = ''weather-service-example''
        \<and> Header_Get r ''User-Agent'' \<noteq> [])"
proof (intro conjI impI)
  assume "is_finite lat \<and> is_finite lon"
  then obtain s m e s' m' e' where l: "lat = Finite s m e" "lon = Finite s' m' e'"
    by (cases lat; cases lon) auto
  have "url_coordinates (URL (points_request lat lon)) = (fmt_4f lat, fmt_4f lon)"
    unfolding URL_points_request l
    by (rule url_coordinates_points) (rule comma_free_fmt)
  then show "four_decimal_url (URL (points_request lat lon))"
    unfolding four_decimal_url_def
    by (simp add: URL_points_request l four_decimals_fmt del: fmt_4f.simps)
next
  show "\<exists>u. snd (getForecast env lat lon) = []
          \<or> snd (getForecast env lat lon) = [points_request lat lon]
          \<or> snd (getForecast env lat lon) = [points_request lat lon, forecast_request u]"
    by (rule sent_requests)
next
  assume "url_ok env (URL (points_request lat lon))"
  then show "hd (snd (getForecast env lat lon)) = points_request lat lon"
    and "snd (getForecast env lat lon) \<noteq> []"
    by (simp_all add: getForecast_steps split: sum.split option.split list.split)
next
  assume "url_ok env (URL (points_request lat lon))
        \<and> Do env [] (points_request lat lon) = Inr r1
        \<and> Unmarshal_points env (Body r1) = Inr pr
        \<and> url_ok env (Properties_Forecast pr)"
  then show "snd (getForecast env lat lon) =
          [points_request lat lon, forecast_request (Properties_Forecast pr)]"
    by (simp add: getForecast_steps split: sum.split option.split list.split)
next
  have h: "Header_Get (points_request lat lon) ''User-Agent'' = ''weather-service-example''"
    "Header_Get (forecast_request u) ''User-Agent'' = ''weather-service-example''" for u
    by (simp_all add: Header_Get_def points_request_def forecast_request_def)
  from sent_requests [of env lat lon] h
  show "\<forall>r \<in> set (snd (getForecast env lat lon)).
        Header_Get r ''User-Agent'' = ''weather-service-example''
        \<and> Header_Get r ''User-Agent'' \<noteq> []"
    by auto
qed

text \<open>
  The coordinates 38.5 and -77.25 against the upstream of \<open>env_today\<close>: the URL of the
  points request, and the two requests sent, each with the header.
\<close>

theorem requests_of_resolver_witness:
  "URL (points_request lat0 lon0) = ''https://api.weather.gov/points/38.5000,-77.2500''
   \<and> four_decimal_url ''https://api.weather.gov/points/38.5000,-77.2500''
   \<and> snd (getForecast env_today lat0 lon0) = [points_request lat0 lon0, forecast_request grid_url]
   \<and> Header_Get (points_request lat0 lon0) ''User-Agent'' = ''weather-service-example''
   \<and> Header_Get (forecast_request grid_url) ''User-Agent'' = ''weather-service-example''"
proof -
  have f: "is_finite lat0 \<and> is_finite lon0"
    by (simp add: lat0_def lon0_def)
  have u: "URL (points_request lat0 lon0) = ''https://api.weather.gov/points/38.5000,-77.2500''"
    by (simp add: points_request0 points_url0_def)
  have o: "url_ok env_today (URL (points_request lat0 lon0))
      \<and> Do env_today [] (points_request lat0 lon0) =
          Inr \<lparr>StatusCode = 200, Body = points_doc, Body_failed = False\<rparr>
      \<and> Unmarshal_points env_today
          (Body \<lparr>StatusCode = 200, Body = points_doc, Body_failed = False\<rparr>) =
          Inr \<lparr>Properties_Forecast = grid_url\<rparr>
      \<and> url_ok env_today (Properties_Forecast \<lparr>Properties_Forecast = grid_url\<rparr>)"
    by (simp add: env_today_def stub_def points_request0)
  note t = requests_of_resolver [of lat0 lon0 env_today
      "\<lparr>StatusCode = 200, Body = points_doc, Body_failed = False\<rparr>"
      "\<lparr>Properties_Forecast = grid_url\<rparr>"]
  from t f u have 1: "four_decimal_url ''https://api.weather.gov/points/38.5000,-77.2500''"
    by simp
  from t o have 2: "snd (getForecast env_today lat0 lon0) =
      [points_request lat0 lon0, forecast_request grid_url]"
    by simp
  from t 2 have 3: "Header_Get (points_request lat0 lon0) ''User-Agent'' = ''weather-service-example''
      \<and> Header_Get (forecast_request grid_url) ''User-Agent'' = ''weather-service-example''"
    by simp
  from u 1 2 3 show ?thesis
    by blast
qed

subsection \<open>When the resolver returns an error\<close>

text \<open>
  Claim C8 says that the resolver returns an error exactly when a request fails at the
  transport level or a body is not valid JSON. This is not so: in \<open>env_shape\<close> the
  points request is answered, and its body \<^verbatim>\<open>{"properties":{"forecast":17}}\<close> is
  valid JSON, but the decoder rejects the number in the place of a string, and the
  resolver returns that error.
\<close>

theorem shape_error_counterexample:
  "Do env_shape [] (points_request lat0 lon0) =
     Inr \<lparr>StatusCode = 200, Body = doc_shape, Body_failed = False\<rparr>
   \<and> Unmarshal_points env_shape doc_shape = Inl UnmarshalTypeError
   \<and> getForecast env_shape lat0 lon0 =
       (Return ([], 0, [], Some UnmarshalTypeError), [points_request lat0 lon0])
   \<and> returns_error (fst (getForecast env_shape lat0 lon0))
   \<and> \<not> transport_or_syntax (exchange_failure env_shape lat0 lon0)"
  by (simp add: getForecast_steps exchange_failure_def env_shape_def stub_def points_request0)

text \<open>
  Claim C8, amended. The resolver returns an error exactly when a call of the HTTP
  client returns an error for one of the two requests or \<^verbatim>\<open>json.Unmarshal\<close> returns
  an error for one of the two bodies, be it for a text that is not valid JSON or for a
  valid text that does not fit the struct; the error returned is that one, and the
  other three results are zero values. Nothing else of an exchange matters: with other
  status codes and other outcomes of reading the bodies the resolver returns the same.
\<close>

theorem resolver_error_iff:
  "returns_error (fst (getForecast env lat lon)) = (exchange_failure env lat lon \<noteq> None)
   \<and> (fst (getForecast env lat lon) = Return (f, t, c, Some e)) =
       (exchange_failure env lat lon = Some e \<and> f = [] \<and> t = 0 \<and> c = [])
   \<and> getForecast (with_status code failed env) lat lon = getForecast env lat lon"
proof (intro conjI)
  show "returns_error (fst (getForecast env lat lon)) = (exchange_failure env lat lon \<noteq> None)"
    by (simp add: getForecast_steps exchange_failure_def
        split: sum.split option.split list.split)
  show "(fst (getForecast env lat lon) = Return (f, t, c, Some e)) =
       (exchange_failure env lat lon = Some e \<and> f = [] \<and> t = 0 \<and> c = [])"
    by (auto simp: getForecast_steps exchange_failure_def
        split: sum.split option.split list.split)
  show "getForecast (with_status code failed env) lat lon = getForecast env lat lon"
    by (simp add: getForecast_steps with_status_def
        split: sum.split option.split list.split)
qed

end
